theory Spec2Isabelle
  imports Complex_Main
begin

section \<open>JavaScript values used by the delivery layer\<close>

text \<open>
  Scores are JavaScript numbers.  They are modelled as exact rationals, extended by the
  three non-finite values that the arithmetic of the handlers can produce (a division by an
  absent or zero maximum).  Rounding of binary floating point is not modelled.
\<close>

datatype jsnum = Num rat | PosInf | NegInf | NaN

text \<open>A field read from a JSON object: \<open>None\<close> is an absent field (\<open>undefined\<close>).\<close>

definition toNumber :: "rat option \<Rightarrow> jsnum" where
  "toNumber v = (case v of None \<Rightarrow> NaN | Some x \<Rightarrow> Num x)"

text \<open>\<open>a / b\<close> (signed zeros are not distinguished: a zero divisor counts as \<open>+0\<close>).\<close>

definition js_div :: "jsnum \<Rightarrow> jsnum \<Rightarrow> jsnum" where
  "js_div a b =
     (case (a, b) of
        (Num x, Num y) \<Rightarrow>
          (if y \<noteq> 0 then Num (x / y)
           else if 0 < x then PosInf else if x < 0 then NegInf else NaN)
      | (NaN, _) \<Rightarrow> NaN
      | (_, NaN) \<Rightarrow> NaN
      | (Num x, _) \<Rightarrow> Num 0
      | (PosInf, Num y) \<Rightarrow> (if 0 \<le> y then PosInf else NegInf)
      | (NegInf, Num y) \<Rightarrow> (if 0 \<le> y then NegInf else PosInf)
      | (_, _) \<Rightarrow> NaN)"

text \<open>\<open>a * k\<close> for a positive finite constant \<open>k\<close>.\<close>

definition js_times :: "jsnum \<Rightarrow> rat \<Rightarrow> jsnum" where
  "js_times a k = (case a of Num x \<Rightarrow> Num (x * k) | PosInf \<Rightarrow> PosInf | NegInf \<Rightarrow> NegInf | NaN \<Rightarrow> NaN)"

text \<open>\<open>Math.round\<close>: the nearest integer, halves rounded up.\<close>

definition Math_round :: "jsnum \<Rightarrow> jsnum" where
  "Math_round a = (case a of Num x \<Rightarrow> Num (of_int \<lfloor>x + 1 / 2\<rfloor>) | PosInf \<Rightarrow> PosInf | NegInf \<Rightarrow> NegInf | NaN \<Rightarrow> NaN)"

text \<open>\<open>a >= k\<close> for a finite constant \<open>k\<close>; every comparison with \<open>NaN\<close> is false.\<close>

definition js_ge :: "jsnum \<Rightarrow> rat \<Rightarrow> bool" where
  "js_ge a k = (case a of Num x \<Rightarrow> k \<le> x | PosInf \<Rightarrow> True | NegInf \<Rightarrow> False | NaN \<Rightarrow> False)"


text \<open>
  \<open>String.prototype.trim\<close> on strings of 8-bit characters: the white space and line
  terminator characters below 256 are TAB, LF, VT, FF, CR, SP and NBSP.
\<close>

definition is_white :: "char \<Rightarrow> bool" where
  "is_white c = (of_char c \<in> {9, 10, 11, 12, 13, 32, 160 :: nat})"

definition trim :: "string \<Rightarrow> string" where
  "trim s = rev (dropWhile is_white (rev (dropWhile is_white s)))"

section \<open>Local Session Store\<close>

text \<open>
  A history entry is the object literal built by \<open>handleMCQNext\<close>, \<open>handleOpenNext\<close> or
  \<open>handleScenarioNext\<close>; fields that a handler does not write are \<open>None\<close>.  An absent
  \<open>question\<close> is modelled by the empty string (both are falsy).
\<close>

record entry =
  h_question :: string
  h_level :: nat
  h_difficulty :: string
  h_isCorrect :: bool
  h_timeTaken :: "int option"
  h_selected :: "string option"
  h_correct :: "string option"
  h_score :: "rat option"
  h_max_score :: "rat option"

record session =
  ss_topic :: string
  ss_proficiency :: string
  ss_level :: string
  ss_score :: nat
  ss_total :: nat
  ss_date :: string
  ss_history :: "entry list"
  ss_feedback :: string

text \<open>
  The value under \<open>STORAGE_KEY\<close> in \<open>localStorage\<close>: nothing, a string that
  \<open>JSON.parse\<close> rejects, or the JSON text of an array of sessions.
\<close>

datatype storage = Missing | Unparsable | Stored "session list"

definition loadSessions :: "storage \<Rightarrow> session list" where
  "loadSessions st = (case st of Missing \<Rightarrow> [] | Unparsable \<Rightarrow> [] | Stored xs \<Rightarrow> xs)"

definition saveSession :: "session \<Rightarrow> storage \<Rightarrow> storage" where
  "saveSession s st = (let all = s # loadSessions st in Stored (take 50 all))"

section \<open>Unified pass/fail rule\<close>

text \<open>
  The predicate \<open>h => h.isCorrect || (h.score >= (h.max_score || 10) * 0.6)\<close> that
  \<open>finishQuiz\<close>, the results screen and the review modal all use.
\<close>

definition max_score_or_10 :: "entry \<Rightarrow> rat" where
  "max_score_or_10 h = (case h_max_score h of None \<Rightarrow> 10 | Some m \<Rightarrow> if m = 0 then 10 else m)"

definition counts_as_success :: "entry \<Rightarrow> bool" where
  "counts_as_success h =
     (h_isCorrect h \<or> (case h_score h of None \<Rightarrow> False | Some s \<Rightarrow> max_score_or_10 h * 0.6 \<le> s))"

text \<open>
  The rule in the words of the specification: the explicit flag is true, or
  \<open>score / max_score >= 0.6\<close> when \<open>max_score\<close> is defined.
\<close>

definition spec_success :: "entry \<Rightarrow> bool" where
  "spec_success h =
     (h_isCorrect h \<or>
      (case h_max_score h of
         None \<Rightarrow> False
       | Some m \<Rightarrow> (case h_score h of None \<Rightarrow> False | Some s \<Rightarrow> 0.6 \<le> s / m)))"

text \<open>An entry whose scale is defined: no score at all, or a positive \<open>max_score\<close>.\<close>

definition scale_defined :: "entry \<Rightarrow> bool" where
  "scale_defined h = (case h_max_score h of None \<Rightarrow> h_score h = None | Some m \<Rightarrow> 0 < m)"

section \<open>Adaptive quiz: items, grading results and requests\<close>

text \<open>
  An item as the Item Service returns it.  Absent text fields are the empty string (both
  are falsy under \<open>||\<close>); \<open>q_correct\<close> and \<open>q_decision_points\<close> are \<open>None\<close> when absent.
\<close>

record decision_point =
  dp_situation :: string
  dp_hint :: string

record question =
  q_type :: string
  q_question :: string
  q_scenario :: string
  q_context :: string
  q_correct :: "string option"
  q_sample_answer :: string
  q_decision_points :: "decision_point list option"
  q_sample_answers :: "nat \<rightharpoonup> string"

text \<open>The grading results of \<open>/l2/evaluate\<close> and \<open>/l3/evaluate\<close> (the fields the handlers read).\<close>

record evaluation =
  ev_score :: "rat option"
  ev_max_score :: "rat option"

record scenario_evaluation =
  sv_total_score :: "rat option"
  sv_total_max_score :: "rat option"

text \<open>The body of the \<open>/adaptive/next\<close> request and of its response.\<close>

record next_request =
  rq_topic :: string
  rq_proficiency :: string
  rq_current_level :: nat
  rq_current_difficulty :: string
  rq_last_score_pct :: jsnum
  rq_time_taken_ms :: int
  rq_recent_score_pcts :: "jsnum list"
  rq_asked_questions :: "string list"

record next_data =
  nd_error :: string
  nd_detail :: string
  nd_question :: "question option"
  nd_new_level :: nat
  nd_new_difficulty :: string

record l3_request =
  l3_scenario :: string
  l3_decision_points :: "decision_point list option"
  l3_user_answers :: "nat \<rightharpoonup> string"
  l3_sample_answers :: "nat \<rightharpoonup> string"
  l3_proficiency :: string

text \<open>Every request the quiz sends, in the order sent (the trace of its network effects).\<close>

datatype request =
    AdaptiveStart string string
  | AdaptiveNext next_request
  | L2Evaluate string string
  | L3Evaluate l3_request
  | Feedback string "entry list"
  | SessionSave string nat nat string

text \<open>
  What an awaited \<open>fetch\<close> gives: it throws (\<open>Failed\<close>, with \<open>err.message\<close>), or it
  resolves with \<open>resp.ok\<close>, the status code as decimal text, and the parsed body.
\<close>

datatype 'a reply = Failed string | Reply bool string 'a

datatype screen = Start | AdaptiveQuiz | Results | Analytics | Improvement | Interview

text \<open>
  The state of the \<open>App\<close> component: its \<open>useState\<close> cells under their own names,
  \<open>startTime\<close> for \<open>startTimeRef.current\<close>, the content of \<open>localStorage\<close>, and the
  requests sent so far.  A handler is modelled as run to completion on the state it was
  called in, its awaited replies given as arguments.
\<close>

record app =
  screen :: screen
  topic :: string
  proficiency :: string
  numQuestions :: nat
  loading :: bool
  sessions :: "session list"
  storage :: storage
  qIndex :: nat
  currentQ :: "question option"
  currentLevel :: nat
  currentDiff :: string
  recentScores :: "jsnum list"
  askedQuestions :: "string list"
  history :: "entry list"
  startTime :: "int option"
  selected :: "string option"
  revealed :: bool
  openAnswer :: string
  evaluation :: "evaluation option"
  showHint :: bool
  evalLoading :: bool
  currentStep :: nat
  stepAnswers :: "nat \<rightharpoonup> string"
  stepHint :: bool
  scenarioEval :: "scenario_evaluation option"
  feedback :: string
  feedbackLoading :: bool
  quizError :: "string option"
  outbox :: "request list"

text \<open>
  The inputs a "next" handler takes from its environment: \<open>Date.now()\<close> on entry, the
  reply to \<open>/adaptive/next\<close>, \<open>Date.now()\<close> once the reply is in, and for the last item
  the formatted date and the replies to \<open>/feedback\<close> and \<open>/session/save\<close>.
\<close>

record world =
  w_now :: int
  w_next :: "next_data reply"
  w_now_after :: int
  w_date :: string
  w_feedback :: "string reply"
  w_save :: "unit reply"

section \<open>Adaptive quiz: the handlers\<close>

definition resetSubState :: "app \<Rightarrow> app" where
  "resetSubState s =
     s\<lparr>selected := None, revealed := False,
       openAnswer := [], evaluation := None, showHint := False,
       currentStep := 1, stepAnswers := Map.empty, stepHint := False, scenarioEval := None\<rparr>"

text \<open>\<open>a || b\<close> on strings.\<close>

definition or_else :: "string \<Rightarrow> string \<Rightarrow> string" where
  "or_else a b = (if a \<noteq> [] then a else b)"

text \<open>
  The \<open>try\<close> block of \<open>fetchNextQuestion\<close> up to its last \<open>throw\<close>: the message caught,
  or the item and the body it came in.
\<close>

definition next_outcome :: "next_data reply \<Rightarrow> string + (question \<times> next_data)" where
  "next_outcome rp =
     (case rp of
        Failed msg \<Rightarrow> Inl msg
      | Reply ok status d \<Rightarrow>
          (if \<not> ok \<or> nd_error d \<noteq> []
           then Inl (or_else (nd_detail d) (or_else (nd_error d) (''Server error '' @ status)))
           else (case nd_question d of
                   None \<Rightarrow> Inl ''Server returned an empty question. Please try again.''
                 | Some q \<Rightarrow> Inr (q, d))))"

definition fetchNextQuestion ::
  "entry list \<Rightarrow> jsnum list \<Rightarrow> jsnum \<Rightarrow> int \<Rightarrow> next_data reply \<Rightarrow> int \<Rightarrow> app \<Rightarrow> app" where
  "fetchNextQuestion newHistory newScores lastScorePct timeTaken rp now s =
     (let asked = filter (\<lambda>q. q \<noteq> []) (map h_question newHistory);
          body = \<lparr>rq_topic = topic s, rq_proficiency = proficiency s,
                  rq_current_level = currentLevel s, rq_current_difficulty = currentDiff s,
                  rq_last_score_pct = lastScorePct, rq_time_taken_ms = timeTaken,
                  rq_recent_score_pcts = newScores, rq_asked_questions = asked\<rparr>;
          s1 = s\<lparr>loading := True, quizError := None, outbox := outbox s @ [AdaptiveNext body]\<rparr>;
          s2 = (case next_outcome rp of
                  Inl msg \<Rightarrow> s1\<lparr>quizError := Some (or_else msg ''Failed to generate next question.'')\<rparr>
                | Inr (q, d) \<Rightarrow>
                    (resetSubState
                       (s1\<lparr>currentQ := Some q, currentLevel := nd_new_level d,
                           currentDiff := nd_new_difficulty d,
                           askedQuestions := asked @ [or_else (q_scenario q) (q_question q)],
                           qIndex := qIndex s1 + 1\<rparr>))\<lparr>startTime := Some now\<rparr>)
      in s2\<lparr>loading := False\<rparr>)"

definition finishQuiz :: "entry list \<Rightarrow> string \<Rightarrow> string reply \<Rightarrow> unit reply \<Rightarrow> app \<Rightarrow> app" where
  "finishQuiz finalHistory date fb sv s =
     (let score = length (filter counts_as_success finalHistory);
          session = \<lparr>ss_topic = topic s, ss_proficiency = proficiency s, ss_level = ''adaptive'',
                     ss_score = score, ss_total = numQuestions s, ss_date = date,
                     ss_history = finalHistory, ss_feedback = []\<rparr>;
          st = saveSession session (storage s);
          s1 = s\<lparr>storage := st, sessions := loadSessions st, screen := Results,
                 feedbackLoading := True,
                 outbox := outbox s @ [Feedback (topic s) finalHistory]\<rparr>;
          s2 = (case fb of
                  Failed msg \<Rightarrow> s1\<lparr>feedback := ''Could not generate feedback.''\<rparr>
                | Reply ok status text \<Rightarrow>
                    (let s3 = s1\<lparr>feedback := text,
                                 outbox := outbox s1 @ [SessionSave (topic s) score (numQuestions s) text]\<rparr>
                     in (case sv of
                           Failed msg \<Rightarrow> s3\<lparr>feedback := ''Could not generate feedback.''\<rparr>
                         | Reply ok' status' u \<Rightarrow> s3)))
      in s2\<lparr>feedbackLoading := False\<rparr>)"

text \<open>\<open>Date.now() - startTimeRef.current\<close>; a \<open>null\<close> reference counts as 0.\<close>

definition elapsed :: "int \<Rightarrow> app \<Rightarrow> int" where
  "elapsed now s = now - (case startTime s of None \<Rightarrow> 0 | Some t \<Rightarrow> t)"

text \<open>
  The common tail of the three "next" handlers: append the entry and the score
  percentage, then seal the session on the last item or fetch the next one.
\<close>

definition record_and_advance :: "entry \<Rightarrow> jsnum \<Rightarrow> int \<Rightarrow> world \<Rightarrow> app \<Rightarrow> app" where
  "record_and_advance e scorePct timeTaken w s =
     (let newHistory = history s @ [e];
          newScores = recentScores s @ [scorePct];
          s1 = s\<lparr>history := newHistory, recentScores := newScores\<rparr>
      in if numQuestions s \<le> qIndex s
         then finishQuiz newHistory (w_date w) (w_feedback w) (w_save w) s1
         else fetchNextQuestion newHistory newScores scorePct timeTaken (w_next w) (w_now_after w) s1)"

text \<open>
  \<open>selected === currentQ.correct\<close>: \<open>selected\<close> is \<open>null\<close> or an option key, the
  item's \<open>correct\<close> is absent or a key.
\<close>

definition strict_eq :: "string option \<Rightarrow> string option \<Rightarrow> bool" where
  "strict_eq a b = (case a of None \<Rightarrow> False | Some k \<Rightarrow> b = Some k)"

text \<open>
  Each handler dereferences \<open>currentQ\<close> (and its grading result) before its first state
  update; when that is \<open>null\<close> the handler throws and the state is as before.
\<close>

definition handleMCQNext :: "world \<Rightarrow> app \<Rightarrow> app" where
  "handleMCQNext w s =
     (case currentQ s of
        None \<Rightarrow> s
      | Some q \<Rightarrow>
          (let timeTaken = elapsed (w_now w) s;
               isCorrect = strict_eq (selected s) (q_correct q);
               scorePct = (if isCorrect then Num 100 else Num 0);
               e = \<lparr>h_question = q_question q, h_level = 1, h_difficulty = currentDiff s,
                    h_isCorrect = isCorrect, h_timeTaken = Some timeTaken,
                    h_selected = selected s, h_correct = q_correct q,
                    h_score = None, h_max_score = None\<rparr>
           in record_and_advance e scorePct timeTaken w s))"

definition handleOpenNext :: "world \<Rightarrow> app \<Rightarrow> app" where
  "handleOpenNext w s =
     (case (evaluation s, currentQ s) of
        (Some ev, Some q) \<Rightarrow>
          (let scorePct = Math_round (js_times (js_div (toNumber (ev_score ev)) (toNumber (ev_max_score ev))) 100);
               timeTaken = elapsed (w_now w) s;
               e = \<lparr>h_question = q_question q, h_level = 2, h_difficulty = currentDiff s,
                    h_isCorrect = js_ge scorePct 60, h_timeTaken = None,
                    h_selected = None, h_correct = None,
                    h_score = ev_score ev, h_max_score = ev_max_score ev\<rparr>
           in record_and_advance e scorePct timeTaken w s)
      | _ \<Rightarrow> s)"

text \<open>\<open>x ? a : b\<close> on an optional number: absent and 0 are falsy.\<close>

definition truthy :: "rat option \<Rightarrow> bool" where
  "truthy v = (case v of None \<Rightarrow> False | Some x \<Rightarrow> x \<noteq> 0)"

definition handleScenarioNext :: "world \<Rightarrow> app \<Rightarrow> app" where
  "handleScenarioNext w s =
     (case (scenarioEval s, currentQ s) of
        (Some sv, Some q) \<Rightarrow>
          (let scorePct = (if truthy (sv_total_max_score sv)
                           then Math_round (js_times (js_div (toNumber (sv_total_score sv))
                                                             (toNumber (sv_total_max_score sv))) 100)
                           else Num 0);
               timeTaken = elapsed (w_now w) s;
               e = \<lparr>h_question = take 120 (q_scenario q), h_level = 3, h_difficulty = currentDiff s,
                    h_isCorrect = js_ge scorePct 60, h_timeTaken = None,
                    h_selected = None, h_correct = None,
                    h_score = sv_total_score sv, h_max_score = sv_total_max_score sv\<rparr>
           in record_and_advance e scorePct timeTaken w s)
      | _ \<Rightarrow> s)"

text \<open>The tally on the results screen.\<close>

definition resultScore :: "app \<Rightarrow> nat" where
  "resultScore s = length (filter counts_as_success (history s))"

text \<open>\<open>stepAnswers[k] || ""\<close>.\<close>

definition answer_at :: "(nat \<rightharpoonup> string) \<Rightarrow> nat \<Rightarrow> string" where
  "answer_at m k = (case m k of None \<Rightarrow> [] | Some a \<Rightarrow> a)"

text \<open>\<open>currentQ.decision_points?.length || 3\<close>.\<close>

definition totalSteps :: "question \<Rightarrow> nat" where
  "totalSteps q =
     (case q_decision_points q of None \<Rightarrow> 3 | Some dps \<Rightarrow> if length dps = 0 then 3 else length dps)"

text \<open>
  \<open>handleStepNext\<close> has no \<open>catch\<close>: when the grading request throws, \<open>evalLoading\<close>
  stays set and no result is stored.
\<close>

definition handleStepNext :: "scenario_evaluation reply \<Rightarrow> app \<Rightarrow> app" where
  "handleStepNext rp s =
     (let ans = trim (answer_at (stepAnswers s) (currentStep s))
      in if ans = [] then s
         else (case currentQ s of
                 None \<Rightarrow> s
               | Some q \<Rightarrow>
                   (if currentStep s < totalSteps q
                    then s\<lparr>currentStep := currentStep s + 1, stepHint := False\<rparr>
                    else (let body = \<lparr>l3_scenario = q_scenario q,
                                        l3_decision_points = q_decision_points q,
                                        l3_user_answers = stepAnswers s,
                                        l3_sample_answers = q_sample_answers q,
                                        l3_proficiency = proficiency s\<rparr>;
                              s1 = s\<lparr>evalLoading := True, outbox := outbox s @ [L3Evaluate body]\<rparr>
                          in (case rp of
                                Failed msg \<Rightarrow> s1
                              | Reply ok status result \<Rightarrow>
                                  s1\<lparr>scenarioEval := Some result, evalLoading := False\<rparr>)))))"

definition submitOpenAnswer :: "evaluation reply \<Rightarrow> app \<Rightarrow> app" where
  "submitOpenAnswer rp s =
     (if trim (openAnswer s) = [] then s
      else (case currentQ s of
              None \<Rightarrow> s\<lparr>evalLoading := True\<rparr>
            | Some q \<Rightarrow>
                (let s1 = s\<lparr>evalLoading := True,
                             outbox := outbox s @ [L2Evaluate (q_question q) (openAnswer s)]\<rparr>
                 in (case rp of
                       Failed msg \<Rightarrow> s1
                     | Reply ok status result \<Rightarrow> s1\<lparr>evaluation := Some result, evalLoading := False\<rparr>))))"

text \<open>
  \<open>startQuiz\<close>; the reply carries \<open>data.question\<close>.  When that is absent the handler
  throws on reading its text, after \<open>setCurrentQ(undefined)\<close>.
\<close>

definition startQuiz :: "question option reply \<Rightarrow> int \<Rightarrow> app \<Rightarrow> app" where
  "startQuiz rp now s =
     (if trim (topic s) = [] then s
      else (let s1 = (resetSubState
                        (s\<lparr>loading := True, quizError := None,
                           history := [], recentScores := [], askedQuestions := [], qIndex := 1,
                           currentLevel := 1, currentDiff := ''medium''\<rparr>))
                     \<lparr>feedback := [], outbox := outbox s @ [AdaptiveStart (topic s) (proficiency s)]\<rparr>;
                failed = ''Failed to start quiz. Please check the server is running.'';
                s2 = (case rp of
                        Failed msg \<Rightarrow> s1\<lparr>quizError := Some failed\<rparr>
                      | Reply ok status None \<Rightarrow> s1\<lparr>currentQ := None, quizError := Some failed\<rparr>
                      | Reply ok status (Some q) \<Rightarrow>
                          s1\<lparr>currentQ := Some q,
                             askedQuestions := [or_else (q_scenario q) (q_question q)],
                             screen := AdaptiveQuiz, startTime := Some now\<rparr>)
            in s2\<lparr>loading := False\<rparr>))"

definition restart :: "app \<Rightarrow> app" where
  "restart s =
     (resetSubState
        (s\<lparr>sessions := loadSessions (storage s), screen := Start, topic := [], history := [],
           feedback := [], recentScores := [], askedQuestions := [], currentQ := None\<rparr>))
     \<lparr>quizError := None\<rparr>"


section \<open>Adaptive quiz: the quiz screen\<close>

text \<open>
  Which part of the quiz screen is rendered, following the chain of conditionals in the
  JSX: the spinner, the error box, or the view of the current item.
\<close>

datatype view =
  NoView | Spinner | ErrorBox | MCQView | OpenView | OpenGraded | ScenarioView | ScenarioGraded

definition quiz_view :: "app \<Rightarrow> view" where
  "quiz_view s =
     (if screen s \<noteq> AdaptiveQuiz then NoView
      else if loading s then Spinner
      else if quizError s \<noteq> None then ErrorBox
      else (case currentQ s of
              None \<Rightarrow> NoView
            | Some q \<Rightarrow>
                (if q_type q = ''mcq'' \<and> evaluation s = None then MCQView
                 else if q_type q = ''open'' \<and> evaluation s = None then OpenView
                 else if q_type q = ''open'' then OpenGraded
                 else if q_type q = ''scenario'' \<and> scenarioEval s = None then ScenarioView
                 else if q_type q = ''scenario'' then ScenarioGraded
                 else NoView)))"

text \<open>
  The learner's actions on the quiz screen.  An action on a control that is not rendered,
  or that is disabled, does nothing.  \<open>ClickOption k\<close> is a click on the option button
  with key \<open>k\<close>; retry is \<open>setQuizError(null)\<close>, start over is \<open>restart\<close>.
\<close>

datatype ui_event =
    ClickOption string
  | ClickMCQNext world
  | TypeOpenAnswer string
  | ToggleHint
  | ClickSubmitOpen "evaluation reply"
  | ClickOpenNext world
  | TypeStepAnswer string
  | ToggleStepHint
  | ClickStepNext "scenario_evaluation reply"
  | ClickScenarioNext world
  | ClickRetry
  | ClickStartOver

fun ui :: "ui_event \<Rightarrow> app \<Rightarrow> app" where
  "ui (ClickOption k) s =
     (if quiz_view s = MCQView \<and> \<not> revealed s then s\<lparr>selected := Some k, revealed := True\<rparr> else s)"
| "ui (ClickMCQNext w) s =
     (if quiz_view s = MCQView \<and> revealed s then handleMCQNext w s else s)"
| "ui (TypeOpenAnswer a) s =
     (if quiz_view s = OpenView then s\<lparr>openAnswer := a\<rparr> else s)"
| "ui ToggleHint s =
     (if quiz_view s = OpenView then s\<lparr>showHint := \<not> showHint s\<rparr> else s)"
| "ui (ClickSubmitOpen rp) s =
     (if quiz_view s = OpenView \<and> \<not> (evalLoading s \<or> trim (openAnswer s) = [])
      then submitOpenAnswer rp s else s)"
| "ui (ClickOpenNext w) s =
     (if quiz_view s = OpenGraded then handleOpenNext w s else s)"
| "ui (TypeStepAnswer a) s =
     (if quiz_view s = ScenarioView then s\<lparr>stepAnswers := (stepAnswers s)(currentStep s \<mapsto> a)\<rparr> else s)"
| "ui ToggleStepHint s =
     (if quiz_view s = ScenarioView then s\<lparr>stepHint := \<not> stepHint s\<rparr> else s)"
| "ui (ClickStepNext rp) s =
     (if quiz_view s = ScenarioView
         \<and> \<not> (evalLoading s \<or> trim (answer_at (stepAnswers s) (currentStep s)) = [])
      then handleStepNext rp s else s)"
| "ui (ClickScenarioNext w) s =
     (if quiz_view s = ScenarioGraded then handleScenarioNext w s else s)"
| "ui ClickRetry s =
     (if quiz_view s = ErrorBox then s\<lparr>quizError := None\<rparr> else s)"
| "ui ClickStartOver s =
     (if quiz_view s = ErrorBox then restart s else s)"

fun run :: "ui_event list \<Rightarrow> app \<Rightarrow> app" where
  "run [] s = s"
| "run (e # es) s = run es (ui e s)"

section \<open>Adaptive quiz: what is observed of a run\<close>

text \<open>The requests sent between two states of a run.\<close>

definition sent_since :: "app \<Rightarrow> app \<Rightarrow> request list" where
  "sent_since s s' = drop (length (outbox s)) (outbox s')"

text \<open>The grading requests for scenarios among some requests, and the score windows sent.\<close>

fun l3_bodies :: "request list \<Rightarrow> l3_request list" where
  "l3_bodies [] = []"
| "l3_bodies (L3Evaluate b # rs) = b # l3_bodies rs"
| "l3_bodies (r # rs) = l3_bodies rs"

fun sent_windows :: "request list \<Rightarrow> jsnum list list" where
  "sent_windows [] = []"
| "sent_windows (AdaptiveNext b # rs) = rq_recent_score_pcts b # sent_windows rs"
| "sent_windows (r # rs) = sent_windows rs"

text \<open>A decision-answer map with exactly the keys \<open>1..n\<close>, each holding non-blank text.\<close>

definition complete_answers :: "nat \<Rightarrow> (nat \<rightharpoonup> string) \<Rightarrow> bool" where
  "complete_answers n m = (dom m = {1..n} \<and> (\<forall>k\<in>{1..n}. trim (answer_at m k) \<noteq> []))"

text \<open>The actions of the scenario stepper: typing an answer, the hint, the step button.\<close>

fun stepper_event :: "ui_event \<Rightarrow> bool" where
  "stepper_event (TypeStepAnswer a) = True"
| "stepper_event ToggleStepHint = True"
| "stepper_event (ClickStepNext rp) = True"
| "stepper_event e = False"

text \<open>
  The invariant of the stepper on an item \<open>q\<close> of \<open>n\<close> steps, over the requests sent
  since \<open>base\<close>: the pointer is within \<open>1..n\<close>, answers exist only up to the pointer, the
  steps behind it are answered, and a grading request, once sent, is the only one, is
  complete, and has closed the step button.
\<close>

definition stepper_inv :: "question \<Rightarrow> nat \<Rightarrow> request list \<Rightarrow> app \<Rightarrow> bool" where
  "stepper_inv q n base s =
     (currentQ s = Some q \<and> 1 \<le> currentStep s \<and> currentStep s \<le> n
      \<and> dom (stepAnswers s) \<subseteq> {1..currentStep s}
      \<and> (\<forall>k. 1 \<le> k \<and> k < currentStep s \<longrightarrow> trim (answer_at (stepAnswers s) k) \<noteq> [])
      \<and> (\<exists>new. outbox s = base @ new \<and> length (l3_bodies new) \<le> 1
             \<and> list_all (\<lambda>b. complete_answers n (l3_user_answers b)) (l3_bodies new)
             \<and> (l3_bodies new \<noteq> [] \<longrightarrow> scenarioEval s \<noteq> None \<or> evalLoading s)))"

text \<open>An action none of whose fetches of a next item fails.\<close>

fun fetch_succeeds :: "ui_event \<Rightarrow> bool" where
  "fetch_succeeds (ClickMCQNext w) = (case next_outcome (w_next w) of Inl m \<Rightarrow> False | Inr x \<Rightarrow> True)"
| "fetch_succeeds (ClickOpenNext w) = (case next_outcome (w_next w) of Inl m \<Rightarrow> False | Inr x \<Rightarrow> True)"
| "fetch_succeeds (ClickScenarioNext w) = (case next_outcome (w_next w) of Inl m \<Rightarrow> False | Inr x \<Rightarrow> True)"
| "fetch_succeeds e = True"

text \<open>
  The invariant of a quiz of \<open>n\<close> items: every stored session has as many history entries
  as its total, and while the quiz is on, the item shown is the one after those recorded.
\<close>

definition seal_inv :: "nat \<Rightarrow> app \<Rightarrow> bool" where
  "seal_inv n s =
     (numQuestions s = n
      \<and> list_all (\<lambda>x. length (ss_history x) = ss_total x) (loadSessions (storage s))
      \<and> (screen s = AdaptiveQuiz \<longrightarrow> length (history s) + 1 = qIndex s \<and> qIndex s \<le> n))"

section \<open>Interview orchestrator\<close>

record iv_question =
  iq_question :: string
  iq_expected_concepts :: "string list"

record iv_evaluation =
  ie_score :: "rat option"
  ie_grade :: string
  ie_concepts_missing :: "string list"

record iv_entry =
  ih_question :: string
  ih_user_answer :: string
  ih_score :: "rat option"
  ih_grade :: string
  ih_concepts_missing :: "string list"

record iv_analysis =
  an_overall_score :: "rat option"
  an_summary :: string
  an_strengths :: "string list"
  an_improvement_areas :: "string list"
  an_study_plan :: "string list"

text \<open>An exchange in the log: \<open>{type: "ai" | "user" | "eval" | "error", ...}\<close>.\<close>

datatype msg = AI string iv_question | User string | Eval iv_evaluation | Error string

datatype phase = Setup | Active | ResultsPhase

datatype status = Idle | LoadingQ | Recording | Transcribing | Evaluating | Analyzing

text \<open>The bodies of \<open>/interview/start\<close> and \<open>/interview/next\<close>, and of \<open>/interview/transcribe\<close>.\<close>

record question_data =
  qd_error :: string
  qd_question :: "iv_question option"

record transcribe_data =
  td_error :: string
  td_transcript :: string

datatype iv_request =
    InterviewStart string string nat
  | InterviewTranscribe
  | InterviewEvaluate string string
  | InterviewAnalyze "iv_entry list"
  | InterviewSave
  | InterviewNext nat "string list"

text \<open>
  The component state together with the browser resources it drives: \<open>speech\<close> is the
  queue of \<open>window.speechSynthesis\<close> (utterances speaking or pending), \<open>synth\<close> tells
  whether \<open>window.speechSynthesis\<close> exists, \<open>captures\<close> counts the \<open>MediaRecorder\<close>s
  that are recording, each on a microphone stream of its own, \<open>mediaRef\<close> tells
  whether \<open>mediaRef.current\<close> holds a recorder, and \<open>awaiting\<close> counts the calls of
  \<open>startRecording\<close> that are suspended at \<open>await getUserMedia\<close>.
\<close>

record interview =
  iv_phase :: phase
  ivTopic :: string
  ivProf :: string
  ivNumQ :: nat
  qNum :: nat
  iv_currentQ :: "iv_question option"
  messages :: "msg list"
  iv_history :: "iv_entry list"
  askedQs :: "string list"
  isRecording :: bool
  status :: status
  transcript :: string
  analysis :: "iv_analysis option"
  analysisPending :: bool
  isMuted :: bool
  mediaRef :: bool
  speech :: "string list"
  synth :: bool
  captures :: nat
  awaiting :: nat
  iv_outbox :: "iv_request list"

text \<open>The replies \<open>submitAnswer\<close> awaits.\<close>

record iv_world =
  iw_evaluate :: "iv_evaluation reply"
  iw_analyze :: "iv_analysis reply"
  iw_save :: "unit reply"
  iw_next :: "question_data reply"

text \<open>
  How the awaited \<open>getUserMedia\<close> settles: with a stream, on which the recorder is
  started, or with an exception.
\<close>

datatype mic = Granted | Denied string

text \<open>\<open>speakText\<close>: unless muted or without speech synthesis, cancel the queue and speak.\<close>

definition speakText :: "string \<Rightarrow> interview \<Rightarrow> interview" where
  "speakText text s = (if isMuted s \<or> \<not> synth s then s else s\<lparr>speech := [text]\<rparr>)"

definition addMsg :: "msg \<Rightarrow> interview \<Rightarrow> interview" where
  "addMsg m s =
     (let s1 = s\<lparr>messages := messages s @ [m]\<rparr>
      in (case m of AI text q \<Rightarrow> (if text \<noteq> [] then speakText text s1 else s1) | _ \<Rightarrow> s1))"

text \<open>
  Receiving a question (\<open>/interview/start\<close>, \<open>/interview/next\<close>): the error thrown, or
  the state once the question is current, asked and spoken.  An absent question makes
  \<open>question.question\<close> throw after \<open>setCurrentQ\<close> and \<open>setQNum\<close>.
\<close>

definition take_question :: "question_data reply \<Rightarrow> nat \<Rightarrow> string list \<Rightarrow> interview \<Rightarrow> string + interview" where
  "take_question rp n asked s =
     (case rp of
        Failed m \<Rightarrow> Inl m
      | Reply ok st d \<Rightarrow>
          (if qd_error d \<noteq> [] then Inl (qd_error d)
           else (case qd_question d of
                   None \<Rightarrow> Inl ''Cannot read properties of undefined (reading 'question')''
                 | Some q \<Rightarrow>
                     Inr (addMsg (AI (iq_question q) q)
                            (s\<lparr>iv_currentQ := Some q, qNum := n, askedQs := asked @ [iq_question q]\<rparr>)))))"

definition question_lost :: "question_data reply \<Rightarrow> nat \<Rightarrow> interview \<Rightarrow> interview" where
  "question_lost rp n s =
     (case rp of
        Reply ok st d \<Rightarrow> (if qd_error d = [] \<and> qd_question d = None then s\<lparr>iv_currentQ := None, qNum := n\<rparr> else s)
      | _ \<Rightarrow> s)"

definition startInterview :: "question_data reply \<Rightarrow> interview \<Rightarrow> interview" where
  "startInterview rp s =
     (if trim (ivTopic s) = [] then s
      else (let s1 = s\<lparr>status := LoadingQ,
                       iv_outbox := iv_outbox s @ [InterviewStart (ivTopic s) (ivProf s) (ivNumQ s)]\<rparr>;
                s2 = (case take_question rp 1 [] s1 of
                        Inl m \<Rightarrow> addMsg (Error (''Failed to start: '' @ m)) (question_lost rp 1 s1)
                      | Inr s' \<Rightarrow> s'\<lparr>iv_phase := Active\<rparr>)
            in s2\<lparr>status := Idle\<rparr>))"

text \<open>
  \<open>startRecording\<close> runs in two steps, with \<open>await getUserMedia\<close> between them.  The
  first step is the guard: a call made while the status is not idle returns at once, any
  other call asks for the microphone and is suspended.  The status is still as it was.
\<close>

definition startRecording :: "interview \<Rightarrow> interview" where
  "startRecording s = (if status s \<noteq> Idle then s else s\<lparr>awaiting := awaiting s + 1\<rparr>)"

text \<open>
  The second step runs when \<open>getUserMedia\<close> settles for a suspended call: with a
  stream, a recorder is started on it and only now the status becomes \<open>recording\<close>;
  an exception is caught and logged.
\<close>

definition startRecording_resumed :: "mic \<Rightarrow> interview \<Rightarrow> interview" where
  "startRecording_resumed m s =
     (if awaiting s = 0 then s
      else (let s1 = s\<lparr>awaiting := awaiting s - 1\<rparr>
            in (case m of
                  Granted \<Rightarrow> s1\<lparr>captures := captures s1 + 1, mediaRef := True, isRecording := True,
                                status := Recording\<rparr>
                | Denied e \<Rightarrow> addMsg (Error (''Mic error: '' @ e @ ''. Type your answer instead.'')) s1)))"

text \<open>The recorder's \<open>onstop\<close> handler: release the microphone, then transcribe.\<close>

definition onstop :: "transcribe_data reply \<Rightarrow> interview \<Rightarrow> interview" where
  "onstop rp s =
     (let s1 = s\<lparr>captures := captures s - 1, status := Transcribing,
                  iv_outbox := iv_outbox s @ [InterviewTranscribe]\<rparr>;
          s2 = (case rp of
                  Failed e \<Rightarrow> addMsg (Error (''Transcription error: '' @ e)) s1
                | Reply ok st d \<Rightarrow>
                    (if td_error d \<noteq> [] then addMsg (Error (''Transcription error: '' @ td_error d)) s1
                     else s1\<lparr>transcript := td_transcript d\<rparr>))
      in s2\<lparr>status := Idle\<rparr>)"

definition stopRecording :: "transcribe_data reply \<Rightarrow> interview \<Rightarrow> interview" where
  "stopRecording rp s =
     (if mediaRef s \<and> isRecording s then onstop rp (s\<lparr>isRecording := False\<rparr>) else s)"

definition analysis_unavailable :: iv_analysis where
  "analysis_unavailable =
     \<lparr>an_overall_score = None, an_summary = ''Analysis unavailable.'', an_strengths = [],
      an_improvement_areas = [], an_study_plan = []\<rparr>"

definition submitAnswer :: "iv_world \<Rightarrow> interview \<Rightarrow> interview" where
  "submitAnswer w s =
     (let ans = trim (transcript s)
      in (case iv_currentQ s of
            None \<Rightarrow> s
          | Some q \<Rightarrow>
              (if ans = [] then s
               else (let s1 = (addMsg (User ans) s)
                                \<lparr>transcript := [], status := Evaluating,
                                 iv_outbox := iv_outbox s @ [InterviewEvaluate (iq_question q) ans]\<rparr>;
                         s2 = (case iw_evaluate w of
                                 Failed e \<Rightarrow> addMsg (Error (''Error: '' @ e)) s1
                               | Reply ok st ev \<Rightarrow>
                                   (let entry = \<lparr>ih_question = iq_question q, ih_user_answer = ans,
                                                 ih_score = ie_score ev, ih_grade = ie_grade ev,
                                                 ih_concepts_missing = ie_concepts_missing ev\<rparr>;
                                        newHistory = iv_history s @ [entry];
                                        s3 = addMsg (Eval ev) (s1\<lparr>iv_history := newHistory\<rparr>)
                                    in if ivNumQ s \<le> qNum s
                                       then (let s4 = s3\<lparr>status := Analyzing, analysisPending := True,
                                                          iv_outbox := iv_outbox s3 @ [InterviewAnalyze newHistory]\<rparr>;
                                                 s5 = (case iw_analyze w of
                                                         Failed e \<Rightarrow> s4\<lparr>analysis := Some analysis_unavailable\<rparr>
                                                       | Reply ok' st' a \<Rightarrow>
                                                           (let s6 = s4\<lparr>analysis := Some a,
                                                                         iv_outbox := iv_outbox s4 @ [InterviewSave]\<rparr>
                                                            in (case iw_save w of
                                                                  Failed e \<Rightarrow> s6\<lparr>analysis := Some analysis_unavailable\<rparr>
                                                                | Reply ok'' st'' u \<Rightarrow> s6)))
                                             in s5\<lparr>analysisPending := False, iv_phase := ResultsPhase\<rparr>)
                                       else (let nq = qNum s + 1;
                                                 s4 = s3\<lparr>status := LoadingQ,
                                                          iv_outbox := iv_outbox s3 @ [InterviewNext nq (askedQs s)]\<rparr>
                                             in (case take_question (iw_next w) nq (askedQs s4) s4 of
                                                   Inl e \<Rightarrow> addMsg (Error (''Error: '' @ e)) (question_lost (iw_next w) nq s4)
                                                 | Inr s' \<Rightarrow> s'))))
                     in s2\<lparr>status := Idle\<rparr>))))"

text \<open>The inline handlers of the back button and of the mute button.\<close>

definition back_to_setup :: "interview \<Rightarrow> interview" where
  "back_to_setup s = s\<lparr>iv_phase := Setup, messages := [], iv_history := [], transcript := []\<rparr>"

definition toggle_mute :: "interview \<Rightarrow> interview" where
  "toggle_mute s =
     (let s1 = s\<lparr>isMuted := \<not> isMuted s\<rparr> in if \<not> isMuted s then s1\<lparr>speech := []\<rparr> else s1)"

text \<open>
  The learner's actions on the screen of the active interview: the mic button (pressed,
  released), the transcript box, submit, mute and back.  A disabled control does nothing.
  \<open>MicSettles\<close> is not an action of the learner: it is \<open>getUserMedia\<close> settling for
  a suspended call of \<open>startRecording\<close>.
\<close>

datatype iv_event =
    MicDown
  | MicSettles mic
  | MicUp "transcribe_data reply"
  | EditTranscript string
  | ClickSubmit iv_world
  | ClickMute
  | ClickBack

definition busy :: "interview \<Rightarrow> bool" where
  "busy s = (status s \<in> {Transcribing, Evaluating, LoadingQ})"

fun iv_ui :: "iv_event \<Rightarrow> interview \<Rightarrow> interview" where
  "iv_ui MicDown s = (if iv_phase s = Active \<and> \<not> busy s then startRecording s else s)"
| "iv_ui (MicSettles m) s = startRecording_resumed m s"
| "iv_ui (MicUp rp) s = (if iv_phase s = Active \<and> \<not> busy s then stopRecording rp s else s)"
| "iv_ui (EditTranscript a) s =
     (if iv_phase s = Active \<and> \<not> (isRecording s \<or> busy s) then s\<lparr>transcript := a\<rparr> else s)"
| "iv_ui (ClickSubmit w) s =
     (if iv_phase s = Active \<and> \<not> (trim (transcript s) = [] \<or> status s \<noteq> Idle) then submitAnswer w s else s)"
| "iv_ui ClickMute s = (if iv_phase s = Active then toggle_mute s else s)"
| "iv_ui ClickBack s = (if iv_phase s = Active then back_to_setup s else s)"

fun iv_run :: "iv_event list \<Rightarrow> interview \<Rightarrow> interview" where
  "iv_run [] s = s"
| "iv_run (e # es) s = iv_run es (iv_ui e s)"

text \<open>
  The start button of the setup screen, \<open>disabled={!ivTopic.trim() || status === "loading-q"}\<close>.
\<close>

definition click_start :: "question_data reply \<Rightarrow> interview \<Rightarrow> interview" where
  "click_start rp s =
     (if iv_phase s = Setup \<and> \<not> (trim (ivTopic s) = [] \<or> status s = LoadingQ)
      then startInterview rp s else s)"

section \<open>Example data\<close>

text \<open>The state of \<open>App\<close> on first render (the \<open>useState\<close> defaults), over a given store.\<close>

definition initial_app :: "storage \<Rightarrow> app" where
  "initial_app st =
     \<lparr>screen = Start, topic = [], proficiency = ''intermediate'', numQuestions = 15,
      loading = False, sessions = loadSessions st, storage = st, qIndex = 0, currentQ = None,
      currentLevel = 1, currentDiff = ''medium'', recentScores = [], askedQuestions = [],
      history = [], startTime = None, selected = None, revealed = False, openAnswer = [],
      evaluation = None, showHint = False, evalLoading = False, currentStep = 1,
      stepAnswers = Map.empty, stepHint = False, scenarioEval = None, feedback = [],
      feedbackLoading = False, quizError = None, outbox = []\<rparr>"

definition mcq_item :: "string \<Rightarrow> question" where
  "mcq_item text =
     \<lparr>q_type = ''mcq'', q_question = text, q_scenario = [], q_context = [],
      q_correct = Some ''A'', q_sample_answer = [], q_decision_points = None,
      q_sample_answers = Map.empty\<rparr>"

definition open_item :: "string \<Rightarrow> question" where
  "open_item text =
     \<lparr>q_type = ''open'', q_question = text, q_scenario = [], q_context = [],
      q_correct = None, q_sample_answer = ''Because.'', q_decision_points = None,
      q_sample_answers = Map.empty\<rparr>"

definition scenario_item :: "string \<Rightarrow> nat \<Rightarrow> question" where
  "scenario_item text n =
     \<lparr>q_type = ''scenario'', q_question = [], q_scenario = text, q_context = [],
      q_correct = None, q_sample_answer = [],
      q_decision_points = Some (replicate n \<lparr>dp_situation = ''What now?'', dp_hint = []\<rparr>),
      q_sample_answers = Map.empty\<rparr>"

text \<open>A world in which the Item Service serves \<open>q\<close> next, and one in which every request fails.\<close>

definition served :: "question \<Rightarrow> world" where
  "served q =
     \<lparr>w_now = 0,
      w_next = Reply True ''200'' \<lparr>nd_error = [], nd_detail = [], nd_question = Some q,
                                   nd_new_level = 1, nd_new_difficulty = ''medium''\<rparr>,
      w_now_after = 0, w_date = ''3 Nov'', w_feedback = Reply True ''200'' ''Well done.'',
      w_save = Reply True ''200'' ()\<rparr>"

definition offline :: world where
  "offline =
     \<lparr>w_now = 0, w_next = Failed ''Failed to fetch'', w_now_after = 0, w_date = ''3 Nov'',
      w_feedback = Failed ''Failed to fetch'', w_save = Failed ''Failed to fetch''\<rparr>"

text \<open>A quiz of \<open>n\<close> items on the topic ``git'', started with \<open>q\<close> as its first item.\<close>

definition started :: "nat \<Rightarrow> question \<Rightarrow> app" where
  "started n q =
     startQuiz (Reply True ''200'' (Some q)) 0
       ((initial_app Missing)\<lparr>topic := ''git'', numQuestions := n\<rparr>)"

text \<open>A level-2 entry with the given score and maximum, its flag unset.\<close>

definition scored :: "rat option \<Rightarrow> rat option \<Rightarrow> entry" where
  "scored a b =
     \<lparr>h_question = ''Why?'', h_level = 2, h_difficulty = ''medium'', h_isCorrect = False,
      h_timeTaken = None, h_selected = None, h_correct = None, h_score = a, h_max_score = b\<rparr>"

text \<open>A quiz showing the grading result \<open>a\<close> out of \<open>b\<close> of an open-response item.\<close>

definition open_graded :: "rat \<Rightarrow> rat \<Rightarrow> app" where
  "open_graded a b =
     (started 3 (open_item ''Why?''))\<lparr>evaluation := Some \<lparr>ev_score = Some a, ev_max_score = Some b\<rparr>\<rparr>"


definition three_then_offline :: "ui_event list" where
  "three_then_offline =
     [ClickOption ''A'', ClickMCQNext (served (mcq_item ''Q2'')),
      ClickOption ''B'', ClickMCQNext (served (mcq_item ''Q3'')),
      ClickOption ''A'', ClickMCQNext offline]"

definition retry_through :: "ui_event list" where
  "retry_through =
     [ClickOption ''A'', ClickMCQNext offline, ClickRetry, ClickMCQNext offline, ClickRetry, ClickMCQNext (served (mcq_item ''Q2'')),
      ClickOption ''A'', ClickMCQNext (served (mcq_item ''Q3'')),
      ClickOption ''A'', ClickMCQNext (served (mcq_item ''Q4''))]"

text \<open>
  A grading result for a scenario, and a learner who works through three decisions: the
  second is first tried with a blank answer, and the step button is pressed once more at
  the end.
\<close>

definition graded_ok :: "scenario_evaluation reply" where
  "graded_ok = Reply True ''200'' \<lparr>sv_total_score = Some 24, sv_total_max_score = Some 30\<rparr>"

definition three_decisions :: "ui_event list" where
  "three_decisions =
     [TypeStepAnswer ''roll back'', ClickStepNext graded_ok,
      TypeStepAnswer '' '', ClickStepNext graded_ok,
      TypeStepAnswer ''page on-call'', ClickStepNext graded_ok,
      TypeStepAnswer ''write it up'', ClickStepNext graded_ok,
      ClickStepNext graded_ok]"

text \<open>
  The interview component on first render, and an interview on ``git'' whose first
  question has been received (and, not being muted, is being spoken).
\<close>

definition initial_interview :: interview where
  "initial_interview =
     \<lparr>iv_phase = Setup, ivTopic = [], ivProf = ''intermediate'', ivNumQ = 5, qNum = 0,
      iv_currentQ = None, messages = [], iv_history = [], askedQs = [], isRecording = False,
      status = Idle, transcript = [], analysis = None, analysisPending = False,
      isMuted = False, mediaRef = False, speech = [], synth = True, captures = 0,
      awaiting = 0, iv_outbox = []\<rparr>"

definition interviewing :: interview where
  "interviewing =
     startInterview
       (Reply True ''200'' \<lparr>qd_error = [], qd_question =
            Some \<lparr>iq_question = ''What does rebase do?'', iq_expected_concepts = []\<rparr>\<rparr>)
       (initial_interview\<lparr>ivTopic := ''git''\<rparr>)"

definition heard :: "string \<Rightarrow> transcribe_data reply" where
  "heard text = Reply True ''200'' \<lparr>td_error = [], td_transcript = text\<rparr>"

text \<open>
  A learner who presses the mic button, is recorded, goes back to the setup screen without
  the button having been released, and starts the interview again.
\<close>

definition restarted_while_recording :: interview where
  "restarted_while_recording =
     click_start
       (Reply True ''200'' \<lparr>qd_error = [], qd_question =
            Some \<lparr>iq_question = ''What is a fast-forward merge?'', iq_expected_concepts = []\<rparr>\<rparr>)
       (iv_run [MicDown, MicSettles Granted, ClickBack] interviewing)"

text \<open>
  A learner who presses the mic button, releases it and presses it again while the
  browser is still asking for the microphone; both requests are then granted.
\<close>

definition pressed_twice :: "iv_event list" where
  "pressed_twice = [MicDown, MicUp (heard []), MicDown, MicSettles Granted, MicSettles Granted]"

section \<open>Evaluating the example runs\<close>

text \<open>The definitions unfolded to evaluate the example runs.\<close>

lemmas quiz_defs = initial_app_def mcq_item_def open_item_def scenario_item_def served_def offline_def
  started_def startQuiz_def open_graded_def scored_def
  resetSubState_def trim_def is_white_def quiz_view_def handleMCQNext_def record_and_advance_def
  fetchNextQuestion_def next_outcome_def or_else_def strict_eq_def elapsed_def finishQuiz_def
  saveSession_def loadSessions_def

section \<open>Properties of the Local Session Store\<close>

lemma loadSessions_saveSession: "loadSessions (saveSession s st) = take 50 (s # loadSessions st)"
  by (simp add: saveSession_def loadSessions_def)

text \<open>
  Claim C9.  Appending a session to the Local Session Store puts it at index 0, keeps the
  previously stored sessions behind it in their order (the first 49 of them), and the list
  retained has length \<open>min (previous length + 1) 50\<close>.
\<close>

theorem saveSession_most_recent_first_capped:
  "loadSessions (saveSession s st) ! 0 = s
   \<and> tl (loadSessions (saveSession s st)) = take 49 (loadSessions st)
   \<and> length (loadSessions (saveSession s st)) = min (length (loadSessions st) + 1) 50"
  by (simp add: loadSessions_saveSession)

section \<open>Properties of the unified pass/fail rule\<close>

lemma counts_as_success_spec: "scale_defined h \<Longrightarrow> counts_as_success h = spec_success h"
  by (auto simp: counts_as_success_def spec_success_def scale_defined_def max_score_or_10_def
      pos_le_divide_eq split: option.splits)

lemma filter_success_spec:
  "\<forall>h\<in>set hs. scale_defined h \<Longrightarrow> filter counts_as_success hs = filter spec_success hs"
  by (rule filter_cong) (auto simp: counts_as_success_spec)

lemma history_fetchNextQuestion [simp]:
  "history (fetchNextQuestion nh ns p t rp now s) = history s"
  by (simp add: fetchNextQuestion_def resetSubState_def Let_def split: sum.splits prod.splits)

lemma history_finishQuiz [simp]: "history (finishQuiz hs date fb sv s) = history s"
  by (simp add: finishQuiz_def Let_def split: reply.splits)

lemma history_record_and_advance [simp]:
  "history (record_and_advance e p t w s) = history s @ [e]"
  by (simp add: record_and_advance_def Let_def)

lemma sealed_session:
  "loadSessions (storage (finishQuiz hs date fb sv s)) ! 0 =
     \<lparr>ss_topic = topic s, ss_proficiency = proficiency s, ss_level = ''adaptive'',
      ss_score = length (filter counts_as_success hs), ss_total = numQuestions s, ss_date = date,
      ss_history = hs, ss_feedback = []\<rparr>"
  by (simp add: finishQuiz_def Let_def saveSession_def loadSessions_def split: reply.splits)

lemma pct_6_10: "Math_round (js_times (js_div (toNumber (Some 6)) (toNumber (Some 10))) 100) = Num 60"
  by code_simp

lemma pct_5_10: "Math_round (js_times (js_div (toNumber (Some 5)) (toNumber (Some 10))) 100) = Num 50"
  by code_simp

text \<open>
  Claim C1.  On an entry whose scale is defined (no score at all, or a positive
  \<open>max_score\<close>), the predicate of the code is the rule of the specification: the flag is
  true, or \<open>score / max_score >= 0.6\<close>.  Over a history of such entries, the tally shown
  on the results screen and the score written into the sealed session both are the number
  of entries satisfying the rule.  The boundary is inclusive: the entry that
  \<open>handleOpenNext\<close> appends for a grade of 6 out of 10 counts as a success, the one for 5
  out of 10 does not.
\<close>

theorem unified_pass_fail_rule:
  "(scale_defined h \<longrightarrow> counts_as_success h = spec_success h)
   \<and> ((\<forall>h\<in>set hs. scale_defined h) \<longrightarrow>
        resultScore (s\<lparr>history := hs\<rparr>) = length (filter spec_success hs)
      \<and> ss_score (loadSessions (storage (finishQuiz hs date fb sv s)) ! 0) = length (filter spec_success hs))
   \<and> (currentQ s = Some q \<and> evaluation s = Some \<lparr>ev_score = Some 6, ev_max_score = Some 10\<rparr> \<longrightarrow>
        counts_as_success (last (history (handleOpenNext w s))))
   \<and> (currentQ s = Some q \<and> evaluation s = Some \<lparr>ev_score = Some 5, ev_max_score = Some 10\<rparr> \<longrightarrow>
        \<not> counts_as_success (last (history (handleOpenNext w s))))"
proof (intro conjI impI)
  assume "scale_defined h" then show "counts_as_success h = spec_success h"
    by (rule counts_as_success_spec)
next
  assume a: "\<forall>h\<in>set hs. scale_defined h"
  show "resultScore (s\<lparr>history := hs\<rparr>) = length (filter spec_success hs)"
    by (simp add: resultScore_def filter_success_spec [OF a])
  show "ss_score (loadSessions (storage (finishQuiz hs date fb sv s)) ! 0) = length (filter spec_success hs)"
    by (simp add: sealed_session filter_success_spec [OF a])
next
  assume "currentQ s = Some q \<and> evaluation s = Some \<lparr>ev_score = Some 6, ev_max_score = Some 10\<rparr>"
  then show "counts_as_success (last (history (handleOpenNext w s)))"
    by (simp add: handleOpenNext_def Let_def pct_6_10 counts_as_success_def js_ge_def)
next
  assume "currentQ s = Some q \<and> evaluation s = Some \<lparr>ev_score = Some 5, ev_max_score = Some 10\<rparr>"
  then show "\<not> counts_as_success (last (history (handleOpenNext w s)))"
    by (simp add: handleOpenNext_def Let_def pct_5_10 counts_as_success_def js_ge_def max_score_or_10_def)
qed

theorem unified_pass_fail_rule_witness:
  "scale_defined (scored (Some 3) (Some 5)) \<and> spec_success (scored (Some 3) (Some 5))
   \<and> counts_as_success (scored (Some 3) (Some 5))
   \<and> list_all scale_defined [scored (Some 3) (Some 5), scored (Some 5) (Some 10)]
   \<and> resultScore ((initial_app Missing)\<lparr>history := [scored (Some 3) (Some 5), scored (Some 5) (Some 10)]\<rparr>) = 1
   \<and> ss_score (loadSessions (storage (finishQuiz [scored (Some 3) (Some 5), scored (Some 5) (Some 10)]
         ''3 Nov'' (Failed []) (Failed []) (initial_app Missing))) ! 0) = 1
   \<and> counts_as_success (last (history (handleOpenNext offline (open_graded 6 10))))
   \<and> \<not> counts_as_success (last (history (handleOpenNext offline (open_graded 5 10))))"
  using unified_pass_fail_rule [where h = "scored (Some 3) (Some 5)"
      and hs = "[scored (Some 3) (Some 5), scored (Some 5) (Some 10)]" and s = "initial_app Missing"
      and date = "''3 Nov''" and fb = "Failed []" and sv = "Failed []"]
    unified_pass_fail_rule [where s = "open_graded 6 10" and q = "open_item ''Why?''" and w = offline]
    unified_pass_fail_rule [where s = "open_graded 5 10" and q = "open_item ''Why?''" and w = offline]
  by (simp add: scale_defined_def spec_success_def scored_def open_graded_def started_def
      startQuiz_def initial_app_def resetSubState_def trim_def is_white_def)

text \<open>
  Claim C10.  When \<open>max_score\<close> is absent or zero the rule falls back to a maximum of 10:
  the entry counts as a success exactly when its flag is true or its score is at least 6.
\<close>

theorem default_scale_of_10:
  "h_max_score h = None \<or> h_max_score h = Some 0 \<Longrightarrow>
     counts_as_success h = (h_isCorrect h \<or> (\<exists>x. h_score h = Some x \<and> 6 \<le> x))"
  by (auto simp: counts_as_success_def max_score_or_10_def split: option.splits)

theorem default_scale_of_10_witness:
  "counts_as_success (scored (Some 7) None) \<and> \<not> counts_as_success (scored (Some 5) (Some 0))"
  using default_scale_of_10 [of "scored (Some 7) None"]
    default_scale_of_10 [of "scored (Some 5) (Some 0)"]
  by (simp add: scored_def)

section \<open>Properties of the item flow\<close>

text \<open>
  Claim C3.  When the fetch of the next item succeeds, the state that presents the item
  has no option selected and nothing revealed, an empty draft, both hints hidden, the
  step pointer at 1, an empty decision-answer map, no grading result of either kind, and
  the time of the fetch as its elapsed-time reference.
\<close>

theorem fetchNextQuestion_resets_sub_state:
  assumes "next_outcome rp = Inr (q, d)"
  shows "currentQ (fetchNextQuestion nh ns p t rp now s) = Some q
       \<and> selected (fetchNextQuestion nh ns p t rp now s) = None
       \<and> \<not> revealed (fetchNextQuestion nh ns p t rp now s)
       \<and> openAnswer (fetchNextQuestion nh ns p t rp now s) = []
       \<and> \<not> showHint (fetchNextQuestion nh ns p t rp now s)
       \<and> \<not> stepHint (fetchNextQuestion nh ns p t rp now s)
       \<and> currentStep (fetchNextQuestion nh ns p t rp now s) = 1
       \<and> stepAnswers (fetchNextQuestion nh ns p t rp now s) = Map.empty
       \<and> evaluation (fetchNextQuestion nh ns p t rp now s) = None
       \<and> scenarioEval (fetchNextQuestion nh ns p t rp now s) = None
       \<and> startTime (fetchNextQuestion nh ns p t rp now s) = Some now"
  using assms by (simp add: fetchNextQuestion_def resetSubState_def Let_def)

theorem fetchNextQuestion_resets_sub_state_witness:
  "selected (ui (ClickOption ''A'') (started 3 (mcq_item ''Q1''))) = Some ''A''
   \<and> revealed (ui (ClickOption ''A'') (started 3 (mcq_item ''Q1'')))
   \<and> currentQ (fetchNextQuestion [] [] (Num 100) 0 (w_next (served (mcq_item ''Q2''))) 7
        (ui (ClickOption ''A'') (started 3 (mcq_item ''Q1'')))) = Some (mcq_item ''Q2'')
   \<and> selected (fetchNextQuestion [] [] (Num 100) 0 (w_next (served (mcq_item ''Q2''))) 7
        (ui (ClickOption ''A'') (started 3 (mcq_item ''Q1'')))) = None
   \<and> \<not> revealed (fetchNextQuestion [] [] (Num 100) 0 (w_next (served (mcq_item ''Q2''))) 7
        (ui (ClickOption ''A'') (started 3 (mcq_item ''Q1''))))
   \<and> startTime (fetchNextQuestion [] [] (Num 100) 0 (w_next (served (mcq_item ''Q2''))) 7
        (ui (ClickOption ''A'') (started 3 (mcq_item ''Q1'')))) = Some 7"
proof -
  have ok: "next_outcome (w_next (served (mcq_item ''Q2''))) =
      Inr (mcq_item ''Q2'', \<lparr>nd_error = [], nd_detail = [], nd_question = Some (mcq_item ''Q2''),
                             nd_new_level = 1, nd_new_difficulty = ''medium''\<rparr>)"
    by (simp add: next_outcome_def served_def)
  have before: "selected (ui (ClickOption ''A'') (started 3 (mcq_item ''Q1''))) = Some ''A''
      \<and> revealed (ui (ClickOption ''A'') (started 3 (mcq_item ''Q1'')))"
    by (simp add: quiz_defs)
  show ?thesis
    using before fetchNextQuestion_resets_sub_state [OF ok, of "[]" "[]" "Num 100" 0 7
        "ui (ClickOption ''A'') (started 3 (mcq_item ''Q1''))"]
    by simp
qed

subsection \<open>The scenario stepper\<close>

lemma l3_bodies_append [simp]: "l3_bodies (xs @ ys) = l3_bodies xs @ l3_bodies ys"
  by (induction xs rule: l3_bodies.induct) auto

lemma handleStepNext_blank:
  "trim (answer_at (stepAnswers s) (currentStep s)) = [] \<Longrightarrow> handleStepNext rp s = s"
  by (simp add: handleStepNext_def)

lemma answered_in_dom: "trim (answer_at m k) \<noteq> [] \<Longrightarrow> k \<in> dom m"
  by (auto simp: answer_at_def trim_def split: option.splits)

lemma stepper_inv_complete:
  assumes "stepper_inv q n base s" "currentStep s = n"
    "trim (answer_at (stepAnswers s) (currentStep s)) \<noteq> []"
  shows "complete_answers n (stepAnswers s)"
proof -
  have nb: "trim (answer_at (stepAnswers s) k) \<noteq> []" if "1 \<le> k" "k \<le> n" for k
    using assms that unfolding stepper_inv_def by (cases "k = n") auto
  have "dom (stepAnswers s) \<subseteq> {1..n}"
    using assms unfolding stepper_inv_def by auto
  moreover have "{1..n} \<subseteq> dom (stepAnswers s)"
  proof
    fix k assume "k \<in> {1..n}"
    then have "trim (answer_at (stepAnswers s) k) \<noteq> []" using nb by simp
    then show "k \<in> dom (stepAnswers s)" by (rule answered_in_dom)
  qed
  ultimately have "dom (stepAnswers s) = {1..n}" by (rule subset_antisym)
  then show ?thesis using nb by (simp add: complete_answers_def)
qed

lemma stepper_inv_type:
  assumes "stepper_inv q n base s"
  shows "stepper_inv q n base (s\<lparr>stepAnswers := (stepAnswers s)(currentStep s \<mapsto> a)\<rparr>)"
  using assms unfolding stepper_inv_def by (auto simp: answer_at_def)

lemma stepper_inv_hint:
  assumes "stepper_inv q n base s"
  shows "stepper_inv q n base (s\<lparr>stepHint := b\<rparr>)"
  using assms unfolding stepper_inv_def by auto

lemma stepper_inv_next:
  assumes inv: "stepper_inv q n base s" and n: "totalSteps q = n"
    and view: "scenarioEval s = None" "\<not> evalLoading s"
  shows "stepper_inv q n base (handleStepNext rp s)"
proof (cases "trim (answer_at (stepAnswers s) (currentStep s)) = []")
  case True
  then show ?thesis using inv by (simp add: handleStepNext_blank)
next
  case False
  have q: "currentQ s = Some q" using inv by (simp add: stepper_inv_def)
  obtain new where new: "outbox s = base @ new" "l3_bodies new = []"
    using inv view unfolding stepper_inv_def by auto
  show ?thesis
  proof (cases "currentStep s < n")
    case True
    have "handleStepNext rp s = s\<lparr>currentStep := currentStep s + 1, stepHint := False\<rparr>"
      using False q n True by (simp add: handleStepNext_def Let_def)
    moreover have "stepper_inv q n base (s\<lparr>currentStep := currentStep s + 1, stepHint := False\<rparr>)"
      using inv True False unfolding stepper_inv_def
      by (auto simp: less_Suc_eq)
    ultimately show ?thesis by simp
  next
    case nlt: False
    then have cs: "currentStep s = n" using inv by (simp add: stepper_inv_def)
    have c: "complete_answers n (stepAnswers s)"
      using stepper_inv_complete [OF inv cs False] .
    show ?thesis
      using inv False q n nlt new c unfolding stepper_inv_def
      by (cases rp) (auto simp: handleStepNext_def Let_def)
  qed
qed

lemma stepper_inv_ui:
  assumes "stepper_inv q n base s" "totalSteps q = n" "stepper_event e"
  shows "stepper_inv q n base (ui e s)"
proof (cases e)
  case (TypeStepAnswer a)
  then show ?thesis using assms by (simp add: stepper_inv_type)
next
  case ToggleStepHint
  then show ?thesis using assms by (simp add: stepper_inv_hint)
next
  case (ClickStepNext rp)
  show ?thesis
  proof (cases "quiz_view s = ScenarioView
      \<and> \<not> (evalLoading s \<or> trim (answer_at (stepAnswers s) (currentStep s)) = [])")
    case True
    then have "scenarioEval s = None" "\<not> evalLoading s"
      by (auto simp: quiz_view_def split: if_splits option.splits)
    then show ?thesis using assms True ClickStepNext by (simp add: stepper_inv_next)
  next
    case False
    then show ?thesis using assms ClickStepNext by auto
  qed
qed (use assms in auto)

lemma stepper_inv_run:
  assumes "stepper_inv q n base s" "totalSteps q = n" "list_all stepper_event evs"
  shows "stepper_inv q n base (run evs s)"
  using assms by (induction evs arbitrary: s) (auto simp: stepper_inv_ui)

lemma stepper_inv_fresh:
  assumes "currentQ s = Some q" "currentStep s = 1" "stepAnswers s = Map.empty" "1 \<le> n"
  shows "stepper_inv q n (outbox s) s"
  using assms by (simp add: stepper_inv_def)

lemma three_decisions_run:
  "map l3_user_answers (l3_bodies (sent_since (started 3 (scenario_item ''Outage'' 3))
     (run three_decisions (started 3 (scenario_item ''Outage'' 3)))))
   = [[1 \<mapsto> ''roll back'', 2 \<mapsto> ''page on-call'', 3 \<mapsto> ''write it up'']]"
  by (simp add: three_decisions_def graded_ok_def quiz_defs handleStepNext_def answer_at_def Let_def
      totalSteps_def sent_since_def numeral_2_eq_2 numeral_3_eq_3)

text \<open>
  Claim C4.  Take a scenario item with \<open>N \<ge> 1\<close> decision points, freshly presented
  (pointer at 1, no answers yet), and any sequence of actions on its stepper.  In every
  state \<open>t\<close>, the step button does nothing while the answer of the current step is empty
  or white space, and sends nothing while the pointer is before the last step.  Over the
  whole run at most one grading request is sent, and the decision-answer map it carries
  has exactly the keys \<open>1..N\<close>, each with non-blank text.
\<close>

theorem scenario_stepping:
  assumes "currentQ s = Some q" and "q_decision_points q = Some dps" and "dps \<noteq> []"
    and "currentStep s = 1" and "stepAnswers s = Map.empty"
    and "list_all stepper_event evs"
  shows "(trim (answer_at (stepAnswers t) (currentStep t)) = [] \<longrightarrow> handleStepNext rp t = t)
       \<and> (currentQ t = Some q \<and> currentStep t < length dps \<longrightarrow> sent_since t (handleStepNext rp t) = [])
       \<and> length (l3_bodies (sent_since s (run evs s))) \<le> 1
       \<and> list_all (\<lambda>b. complete_answers (length dps) (l3_user_answers b))
            (l3_bodies (sent_since s (run evs s)))"
proof -
  have n: "totalSteps q = length dps" "1 \<le> length dps"
    using assms by (auto simp: totalSteps_def Suc_le_eq)
  have "stepper_inv q (length dps) (outbox s) (run evs s)"
    using stepper_inv_run [OF stepper_inv_fresh [OF assms(1,4,5) n(2)] n(1) assms(6)] .
  then obtain new where new: "outbox (run evs s) = outbox s @ new" "length (l3_bodies new) \<le> 1"
    "list_all (\<lambda>b. complete_answers (length dps) (l3_user_answers b)) (l3_bodies new)"
    unfolding stepper_inv_def by auto
  have "sent_since s (run evs s) = new" by (simp add: sent_since_def new(1))
  moreover have "currentQ t = Some q \<and> currentStep t < length dps
      \<longrightarrow> sent_since t (handleStepNext rp t) = []"
    using n by (auto simp: handleStepNext_def sent_since_def Let_def)
  ultimately show ?thesis using new by (simp add: handleStepNext_blank)
qed

theorem scenario_stepping_witness:
  "length (l3_bodies (sent_since (started 3 (scenario_item ''Outage'' 3))
       (run three_decisions (started 3 (scenario_item ''Outage'' 3))))) = 1
   \<and> list_all (\<lambda>b. complete_answers 3 (l3_user_answers b))
       (l3_bodies (sent_since (started 3 (scenario_item ''Outage'' 3))
          (run three_decisions (started 3 (scenario_item ''Outage'' 3)))))
   \<and> handleStepNext graded_ok (ui (TypeStepAnswer '' '') (started 3 (scenario_item ''Outage'' 3)))
       = ui (TypeStepAnswer '' '') (started 3 (scenario_item ''Outage'' 3))"
proof -
  have h: "currentQ (started 3 (scenario_item ''Outage'' 3)) = Some (scenario_item ''Outage'' 3)"
    "q_decision_points (scenario_item ''Outage'' 3) = Some (replicate 3 \<lparr>dp_situation = ''What now?'', dp_hint = []\<rparr>)"
    "replicate 3 \<lparr>dp_situation = ''What now?'', dp_hint = []\<rparr> \<noteq> []"
    "currentStep (started 3 (scenario_item ''Outage'' 3)) = 1"
    "stepAnswers (started 3 (scenario_item ''Outage'' 3)) = Map.empty"
    "list_all stepper_event three_decisions"
    by (simp_all add: quiz_defs three_decisions_def)
  have blank: "trim (answer_at (stepAnswers (ui (TypeStepAnswer '' '') (started 3 (scenario_item ''Outage'' 3))))
      (currentStep (ui (TypeStepAnswer '' '') (started 3 (scenario_item ''Outage'' 3))))) = []"
    by (simp add: quiz_defs answer_at_def)
  have one: "length (l3_bodies (sent_since (started 3 (scenario_item ''Outage'' 3))
       (run three_decisions (started 3 (scenario_item ''Outage'' 3))))) = 1"
    using arg_cong [OF three_decisions_run, of length] by simp
  show ?thesis
    using one blank scenario_stepping [OF h,
        of "ui (TypeStepAnswer '' '') (started 3 (scenario_item ''Outage'' 3))" graded_ok]
    by simp
qed

section \<open>Properties of the session aggregator\<close>

lemma recentScores_fetchNextQuestion [simp]:
  "recentScores (fetchNextQuestion nh ns p t rp now s) = recentScores s"
  by (simp add: fetchNextQuestion_def resetSubState_def Let_def split: sum.splits prod.splits)

lemma recentScores_finishQuiz [simp]: "recentScores (finishQuiz hs date fb sv s) = recentScores s"
  by (simp add: finishQuiz_def Let_def split: reply.splits)


lemma sent_windows_append [simp]: "sent_windows (xs @ ys) = sent_windows xs @ sent_windows ys"
  by (induction xs rule: sent_windows.induct) auto





lemma recentScores_other_handlers [simp]:
  "recentScores (handleStepNext rp s) = recentScores s"
  "recentScores (submitOpenAnswer rq s) = recentScores s"
  "recentScores (restart s) = []"
  by (auto simp: handleStepNext_def submitOpenAnswer_def restart_def resetSubState_def Let_def
      split: option.splits reply.splits)










text \<open>
  Claim C5, evaluated on the code.  After three completed items the fetch of the fourth
  fails: the history still has its three entries and the error box is shown.  Retry only
  clears the error, which shows the third item again, already answered; pressing ``next''
  then succeeds, and the history holds the third item twice.
\<close>

theorem failed_fetch_retry_duplicates:
  "length (history (run three_then_offline (started 5 (mcq_item ''Q1'')))) = 3
   \<and> quiz_view (run three_then_offline (started 5 (mcq_item ''Q1''))) = ErrorBox
   \<and> quiz_view (run (three_then_offline @ [ClickRetry]) (started 5 (mcq_item ''Q1''))) = MCQView
   \<and> currentQ (run (three_then_offline @ [ClickRetry]) (started 5 (mcq_item ''Q1''))) = Some (mcq_item ''Q3'')
   \<and> history (run (three_then_offline @ [ClickRetry]) (started 5 (mcq_item ''Q1'')))
      =  history (run three_then_offline (started 5 (mcq_item ''Q1'')))
   \<and> map h_question (history (run (three_then_offline @ [ClickRetry, ClickMCQNext (served (mcq_item ''Q4''))])
          (started 5 (mcq_item ''Q1'')))) = [''Q1'', ''Q2'', ''Q3'', ''Q3'']
   \<and> currentQ (run (three_then_offline @ [ClickRetry, ClickMCQNext (served (mcq_item ''Q4''))])
          (started 5 (mcq_item ''Q1''))) = Some (mcq_item ''Q4'')"
  by (simp add: three_then_offline_def quiz_defs Let_def)

subsection \<open>Sealing\<close>

text \<open>
  As long as no fetch of a next item fails, every session sealed by a quiz of \<open>n \<ge> 1\<close>
  items has exactly as many history entries as its total.
\<close>

lemma seal_inv_record_and_advance:
  assumes "seal_inv n s" "screen s = AdaptiveQuiz"
    "case next_outcome (w_next w) of Inl m \<Rightarrow> False | Inr x \<Rightarrow> True"
  shows "seal_inv n (record_and_advance e p t w s)"
proof (cases "numQuestions s \<le> qIndex s")
  case True
  then show ?thesis using assms
    by (auto simp: seal_inv_def record_and_advance_def finishQuiz_def saveSession_def
        loadSessions_def Let_def list_all_iff split: reply.splits storage.splits dest: in_set_takeD)
next
  case False
  then show ?thesis using assms
    by (auto simp: seal_inv_def record_and_advance_def fetchNextQuestion_def resetSubState_def
        Let_def split: sum.splits)
qed

lemma quiz_view_screen: "quiz_view s \<noteq> NoView \<Longrightarrow> screen s = AdaptiveQuiz"
  by (auto simp: quiz_view_def split: if_splits)

lemma seal_inv_handlers:
  assumes "seal_inv n s" "screen s = AdaptiveQuiz"
    "case next_outcome (w_next w) of Inl m \<Rightarrow> False | Inr x \<Rightarrow> True"
  shows "seal_inv n (handleMCQNext w s)" "seal_inv n (handleOpenNext w s)"
    "seal_inv n (handleScenarioNext w s)"
  using assms
  by (auto simp: handleMCQNext_def handleOpenNext_def handleScenarioNext_def Let_def
      seal_inv_record_and_advance split: option.splits)

lemma seal_inv_other:
  assumes "seal_inv n s"
  shows "seal_inv n (handleStepNext rp s)" "seal_inv n (submitOpenAnswer rq s)" "seal_inv n (restart s)"
  using assms
  by (auto simp: seal_inv_def handleStepNext_def submitOpenAnswer_def restart_def resetSubState_def
      Let_def split: option.splits reply.splits)

lemma seal_inv_ui:
  assumes "seal_inv n s" "fetch_succeeds e"
  shows "seal_inv n (ui e s)"
proof (cases e)
  case (ClickMCQNext w)
  then show ?thesis using assms seal_inv_handlers(1) [of n s w] quiz_view_screen [of s] by auto
next
  case (ClickOpenNext w)
  then show ?thesis using assms seal_inv_handlers(2) [of n s w] quiz_view_screen [of s] by auto
next
  case (ClickScenarioNext w)
  then show ?thesis using assms seal_inv_handlers(3) [of n s w] quiz_view_screen [of s] by auto
next
  case (ClickSubmitOpen rq)
  then show ?thesis using assms seal_inv_other(2) by auto
next
  case (ClickStepNext rp)
  then show ?thesis using assms seal_inv_other(1) by auto
next
  case ClickStartOver
  then show ?thesis using assms seal_inv_other(3) by auto
qed (use assms in \<open>auto simp: seal_inv_def\<close>)

lemma seal_inv_run:
  assumes "seal_inv n s" "list_all fetch_succeeds evs"
  shows "seal_inv n (run evs s)"
  using assms by (induction evs arbitrary: s) (auto simp: seal_inv_ui)

lemma seal_inv_started: "1 \<le> n \<Longrightarrow> seal_inv n (started n q)"
  by (simp add: seal_inv_def quiz_defs)

lemma sealed_history_matches_total_without_failures:
  assumes "1 \<le> n" "list_all fetch_succeeds evs"
  shows "list_all (\<lambda>x. length (ss_history x) = ss_total x)
           (loadSessions (storage (run evs (started n q))))"
  using seal_inv_run [OF seal_inv_started [OF assms(1)] assms(2)] by (simp add: seal_inv_def)

text \<open>
  Claim C2, evaluated on the code.  With failed fetches the count is lost: a quiz of three
  items whose first fetch fails twice, retried each time, is sealed with five history
  entries against a total of three (and a score of five).
\<close>

theorem sealed_history_longer_than_total:
  "screen (run retry_through (started 3 (mcq_item ''Q1''))) = Results
   \<and> length (loadSessions (storage (run retry_through (started 3 (mcq_item ''Q1''))))) = 1
   \<and> ss_total (loadSessions (storage (run retry_through (started 3 (mcq_item ''Q1'')))) ! 0) = 3
   \<and> length (ss_history (loadSessions (storage (run retry_through (started 3 (mcq_item ''Q1'')))) ! 0)) = 5
   \<and> ss_score (loadSessions (storage (run retry_through (started 3 (mcq_item ''Q1'')))) ! 0) = 5"
  by (simp add: retry_through_def quiz_defs Let_def counts_as_success_def)

section \<open>Properties of the interview orchestrator\<close>

lemma startRecording_not_idle: "status s \<noteq> Idle \<Longrightarrow> startRecording s = s"
  by (simp add: startRecording_def)

text \<open>The definitions unfolded to evaluate the example interviews.\<close>

lemmas iv_defs = initial_interview_def interviewing_def heard_def startInterview_def take_question_def
  question_lost_def addMsg_def speakText_def trim_def is_white_def startRecording_def startRecording_resumed_def
  stopRecording_def
  onstop_def back_to_setup_def toggle_mute_def busy_def

text \<open>
  Claim C7, evaluated on the code.  The guard itself holds: once the status is
  \<open>recording\<close>, a further press of the mic button changes nothing.  But the status
  only becomes \<open>recording\<close> after \<open>getUserMedia\<close> has settled.  In an interview
  entered idle with no capture, a second press made before that passes the guard as well,
  and two captures are active.  The same happens when a recording is left running over a
  return to the setup screen: starting the interview again sets the status to idle, and
  the next press starts a second capture beside the first.
\<close>

theorem second_capture_passes_the_guard:
  "status interviewing = Idle \<and> captures interviewing = 0
   \<and> status (iv_run [MicDown, MicSettles Granted] interviewing) = Recording
   \<and> captures (iv_run [MicDown, MicSettles Granted] interviewing) = 1
   \<and> iv_run [MicDown, MicSettles Granted, MicDown] interviewing
       = iv_run [MicDown, MicSettles Granted] interviewing
   \<and> awaiting (iv_run (take 3 pressed_twice) interviewing) = 2
   \<and> captures (iv_run pressed_twice interviewing) = 2
   \<and> status restarted_while_recording = Idle
   \<and> captures restarted_while_recording = 1
   \<and> captures (iv_run [MicDown, MicSettles Granted] restarted_while_recording) = 2"
  by (simp add: pressed_twice_def restarted_while_recording_def click_start_def iv_defs Let_def)

text \<open>
  Claim C8, as the code has it.  The back button returns to the setup phase, empties the
  exchange log (messages and per-question history) and the draft transcript; it leaves the
  speech queue as it is, so an utterance in flight keeps playing.
\<close>

theorem back_to_setup_discards_log:
  "iv_phase (back_to_setup s) = Setup \<and> messages (back_to_setup s) = []
   \<and> iv_history (back_to_setup s) = [] \<and> transcript (back_to_setup s) = []
   \<and> speech (back_to_setup s) = speech s"
  by (simp add: back_to_setup_def)


text \<open>
  The claim as written fails: the first question of an interview is being spoken, the
  learner goes back to the setup phase, and the utterance is still in the speech queue.
\<close>

theorem back_keeps_playback_counterexample:
  "iv_phase interviewing = Active
   \<and> speech interviewing = [''What does rebase do?'']
   \<and> iv_phase (iv_ui ClickBack interviewing) = Setup
   \<and> speech (iv_ui ClickBack interviewing) = [''What does rebase do?'']"
  by (simp add: iv_defs Let_def)

end
